theory Spec2Isabelle
  imports Main
begin

section \<open>Values that cross the JavaScript boundary\<close>

text \<open>
  A property of a JSON object, or a piece of React state typed \<open>string | null\<close>, is a
  \<open>string option\<close>: \<open>None\<close> stands for \<open>null\<close>, \<open>undefined\<close> and an absent key alike
  (the code never tells them apart: it only tests truthiness and strict equality with a
  string literal). \<open>truthy\<close> is the test \<open>!!v\<close> on such a value: the empty string is falsy.
\<close>

definition truthy :: "string option \<Rightarrow> bool" where
  "truthy v = (case v of None \<Rightarrow> False | Some t \<Rightarrow> t \<noteq> [])"

text \<open>
  The result of \<open>JSON.parse\<close> (or \<open>response.json()\<close>), read as an object of the expected
  shape: the parse throws, or yields \<open>null\<close> (a property access on it throws), or a
  primitive (every property of it is \<open>undefined\<close>), or an object.
\<close>

datatype 'a parsed = ParseError | JNull | JPrimitive | JObject 'a

text \<open>An awaited \<open>fetch\<close>: the promise rejects, or resolves with a status and a body.\<close>

datatype 'a fetch_result = Rejected | Resolved nat 'a

text \<open>
  \<open>String.prototype.trim\<close> over 8-bit characters: the white space among them is TAB, LF,
  VT, FF, CR, SPACE and NBSP.
\<close>

definition js_space :: "char \<Rightarrow> bool" where
  "js_space c = ((of_char c :: nat) \<in> {9, 10, 11, 12, 13, 32, 160})"

definition trim :: "string \<Rightarrow> string" where
  "trim t = rev (dropWhile js_space (rev (dropWhile js_space t)))"

section \<open>The client: \<open>client/src/App.tsx\<close>\<close>

subsection \<open>Data\<close>

datatype sender = User | Bot

text \<open>\<open>new Date()\<close> reads the clock (an input of the model); \<open>new Date(v)\<close> keeps \<open>v\<close>.\<close>

datatype date = Now nat | DateOf "string option"

record message =
  content :: "string option"
  sender :: sender
  timestamp :: date
  isLoading :: "bool option"

datatype ready_state = CONNECTING | OPEN | CLOSING | CLOSED

text \<open>The two frames the client writes to a socket, before \<open>JSON.stringify\<close>.\<close>

datatype out_content = Topics "string list" | Typing string string

datatype out_frame = OutFrame string out_content

text \<open>
  A \<open>WebSocket\<close> object: the address given to the constructor, its ready state, the frames
  sent on it, and the value of \<open>isWidgetOpen\<close> that its \<open>onmessage\<close> closure captured when
  \<open>initializeChat\<close> created it.
\<close>

record websocket =
  url :: "string option"
  readyState :: ready_state
  sent :: "out_frame list"
  closureWidgetOpen :: bool

text \<open>The outward HTTP calls, with the body of the send call.\<close>

datatype request = StartChat | SendMessage "string option" "string option"

text \<open>
  The state of the component: the eleven \<open>useState\<close> cells, the \<open>wsRef\<close> reference (an
  index into the store of sockets created so far), that store, the HTTP calls issued and
  the number of times the notification sound was played.
\<close>

record app =
  messages :: "message list"
  input :: string
  isTyping :: bool
  isChatLoading :: bool
  isWidgetOpen :: bool
  hasNewMessage :: bool
  hasPendingBotResponse :: bool
  contactId :: "string option"
  participantToken :: "string option"
  connectionToken :: "string option"
  wsUrl :: "string option"
  wsRef :: "nat option"
  sockets :: "websocket list"
  requests :: "request list"
  soundsPlayed :: nat

definition init :: app where
  "init = \<lparr>messages = [], input = [], isTyping = False, isChatLoading = False,
     isWidgetOpen = False, hasNewMessage = False, hasPendingBotResponse = False,
     contactId = None, participantToken = None, connectionToken = None, wsUrl = None,
     wsRef = None, sockets = [], requests = [], soundsPlayed = 0\<rparr>"

text \<open>The body of the bootstrap response, as \<open>initializeChat\<close> destructures it.\<close>

record start_chat_data =
  data_contactId :: "string option"
  data_participantToken :: "string option"
  data_websocketUrl :: "string option"
  data_connectionToken :: "string option"

text \<open>An inbound push frame after the outer parse, and the envelope inside its content.\<close>

record envelope =
  Type :: "string option"
  ParticipantRole :: "string option"
  Content :: "string option"
  AbsoluteTime :: "string option"
  State :: "string option"

record in_frame =
  frame_topic :: "string option"
  frame_content :: "envelope parsed"

subsection \<open>Socket operations\<close>

text \<open>
  \<open>ws.send\<close>: throws \<open>InvalidStateError\<close> while connecting (\<open>None\<close>), queues the frame when
  open, and drops it silently when closing or closed.
\<close>

definition queue :: "nat \<Rightarrow> out_frame \<Rightarrow> websocket list \<Rightarrow> websocket list" where
  "queue i fr ss = ss[i := (ss ! i)\<lparr>sent := sent (ss ! i) @ [fr]\<rparr>]"

definition ws_send :: "nat \<Rightarrow> out_frame \<Rightarrow> app \<Rightarrow> app option" where
  "ws_send i fr s =
     (if i < length (sockets s) then
        (case readyState (sockets s ! i) of
           CONNECTING \<Rightarrow> None
         | OPEN \<Rightarrow> Some (s\<lparr>sockets := queue i fr (sockets s)\<rparr>)
         | CLOSING \<Rightarrow> Some s
         | CLOSED \<Rightarrow> Some s)
      else Some s)"

text \<open>\<open>ws.close()\<close>: starts the closing handshake unless the socket is closing or closed.\<close>

definition setReadyState :: "nat \<Rightarrow> ready_state \<Rightarrow> app \<Rightarrow> app" where
  "setReadyState i r s = s\<lparr>sockets := (sockets s)[i := (sockets s ! i)\<lparr>readyState := r\<rparr>]\<rparr>"

definition ws_close :: "nat \<Rightarrow> app \<Rightarrow> app" where
  "ws_close i s =
     (if i < length (sockets s) then
        (case readyState (sockets s ! i) of
           CONNECTING \<Rightarrow> setReadyState i CLOSING s
         | OPEN \<Rightarrow> setReadyState i CLOSING s
         | CLOSING \<Rightarrow> s
         | CLOSED \<Rightarrow> s)
      else s)"

subsection \<open>\<open>initializeChat\<close>\<close>

text \<open>
  The awaited bootstrap call is an input: the result of \<open>fetch\<close> with the parsed body, and
  whether \<open>new WebSocket(websocketUrl)\<close> accepts the address (it throws \<open>SyntaxError\<close>
  otherwise). Every throw inside the \<open>try\<close> lands in the \<open>catch\<close>, which only resets
  \<open>isChatLoading\<close>.
\<close>

definition initializeChat :: "start_chat_data parsed fetch_result \<Rightarrow> bool \<Rightarrow> app \<Rightarrow> app" where
  "initializeChat res ctor_ok s =
     (let s1 = s\<lparr>isChatLoading := True, requests := requests s @ [StartChat]\<rparr>;
          caught = s1\<lparr>isChatLoading := False\<rparr>
      in case res of
           Rejected \<Rightarrow> caught
         | Resolved st body \<Rightarrow>
             (case body of
                ParseError \<Rightarrow> caught
              | JNull \<Rightarrow> caught
              | JPrimitive \<Rightarrow> caught
              | JObject d \<Rightarrow>
                  if \<not> truthy (data_contactId d) \<or> \<not> truthy (data_participantToken d)
                     \<or> \<not> truthy (data_websocketUrl d)
                  then caught
                  else
                    let s2 = s1\<lparr>contactId := data_contactId d,
                                participantToken := data_participantToken d,
                                wsUrl := data_websocketUrl d,
                                connectionToken := data_connectionToken d\<rparr>
                    in if \<not> ctor_ok then s2\<lparr>isChatLoading := False\<rparr>
                       else s2\<lparr>sockets := sockets s2 @
                                   [\<lparr>url = data_websocketUrl d, readyState = CONNECTING,
                                     sent = [], closureWidgetOpen = isWidgetOpen s\<rparr>],
                                 wsRef := Some (length (sockets s2))\<rparr>))"

subsection \<open>The socket's handlers\<close>

definition ws_onopen :: "nat \<Rightarrow> app \<Rightarrow> app" where
  "ws_onopen i s =
     (case ws_send i (OutFrame ''aws/subscribe'' (Topics [''aws/chat'', ''aws/typing''])) s of
        None \<Rightarrow> s
      | Some s' \<Rightarrow> s'\<lparr>isChatLoading := False\<rparr>)"

definition clearLoading :: "message \<Rightarrow> message" where
  "clearLoading msg =
     (if isLoading msg = Some True \<and> sender msg = User then msg\<lparr>isLoading := Some False\<rparr>
      else msg)"

text \<open>
  \<open>ws.onmessage\<close>, with the \<open>isWidgetOpen\<close> of its closure. Whatever throws inside is caught
  and logged, leaving the state as it was.
\<close>

definition ws_onmessage :: "bool \<Rightarrow> in_frame parsed \<Rightarrow> app \<Rightarrow> app" where
  "ws_onmessage widgetOpen receivedData s =
     (case receivedData of
        ParseError \<Rightarrow> s
      | JNull \<Rightarrow> s
      | JPrimitive \<Rightarrow> s
      | JObject f \<Rightarrow>
          if frame_topic f = Some ''aws/chat'' then
            (case frame_content f of
               ParseError \<Rightarrow> s
             | JNull \<Rightarrow> s
             | JPrimitive \<Rightarrow> s
             | JObject chatContent \<Rightarrow>
                 if Type chatContent = Some ''MESSAGE'' then
                   (let isCustomerMessage = (ParticipantRole chatContent = Some ''CUSTOMER'');
                        newMessage = \<lparr>content = Content chatContent,
                                      sender = (if isCustomerMessage then User else Bot),
                                      timestamp = DateOf (AbsoluteTime chatContent),
                                      isLoading = None\<rparr>
                    in if \<not> isCustomerMessage then
                         s\<lparr>messages := map clearLoading (messages s) @ [newMessage],
                           hasPendingBotResponse := False,
                           soundsPlayed := Suc (soundsPlayed s),
                           hasNewMessage := (if \<not> widgetOpen then True else hasNewMessage s)\<rparr>
                       else s)
                 else s)
          else if frame_topic f = Some ''aws/typing'' then
            (case frame_content f of
               ParseError \<Rightarrow> s
             | JNull \<Rightarrow> s
             | JPrimitive \<Rightarrow> s
             | JObject typingContent \<Rightarrow>
                 if Type typingContent = Some ''TYPING'' then
                   s\<lparr>isTyping := (State typingContent = Some ''STARTED''
                                   \<and> ParticipantRole typingContent \<noteq> Some ''CUSTOMER'')\<rparr>
                 else s)
          else s)"

definition ws_onerror :: "app \<Rightarrow> app" where
  "ws_onerror s = s\<lparr>isChatLoading := False\<rparr>"

definition ws_onclose :: "app \<Rightarrow> app" where
  "ws_onclose s = s\<lparr>isChatLoading := False\<rparr>"

subsection \<open>The user's actions\<close>

text \<open>
  \<open>setIsWidgetOpen\<close> followed by the effect on \<open>isWidgetOpen\<close>: opening runs
  \<open>initializeChat\<close>, minimising resets the typing flags and the input and leaves the socket
  alone. Setting the flag to the value it has triggers nothing.
\<close>

definition openChat :: "start_chat_data parsed fetch_result \<Rightarrow> bool \<Rightarrow> app \<Rightarrow> app" where
  "openChat res ctor_ok s =
     (if isWidgetOpen s then s else initializeChat res ctor_ok (s\<lparr>isWidgetOpen := True\<rparr>))"

definition handleMinimizeChat :: "app \<Rightarrow> app" where
  "handleMinimizeChat s =
     (if \<not> isWidgetOpen s then s
      else s\<lparr>isWidgetOpen := False, isTyping := False, input := [],
             hasPendingBotResponse := False\<rparr>)"

text \<open>
  \<open>handleSubmit\<close>, with the clock and the result of the awaited send call as inputs. The
  code never reads the response; after a resolved call it sends a typing-stopped frame
  on the current socket, and a throw there is caught.
\<close>

definition handleSubmit :: "nat \<Rightarrow> 'a fetch_result \<Rightarrow> app \<Rightarrow> app" where
  "handleSubmit now res s =
     (if trim (input s) = [] \<or> \<not> truthy (contactId s) \<or> \<not> truthy (participantToken s)
         \<or> \<not> truthy (wsUrl s)
      then s
      else
        let userMessage = \<lparr>content = Some (input s), sender = User, timestamp = Now now,
                            isLoading = Some True\<rparr>;
            s1 = s\<lparr>messages := messages s @ [userMessage], input := [],
                   hasPendingBotResponse := True,
                   requests := requests s @ [SendMessage (connectionToken s) (content userMessage)]\<rparr>
        in case res of
             Rejected \<Rightarrow> s1
           | Resolved st body \<Rightarrow>
               (case wsRef s1 of
                  None \<Rightarrow> s1
                | Some i \<Rightarrow>
                    (case ws_send i (OutFrame ''aws/typing'' (Typing ''TYPING'' ''STOPPED'')) s1 of
                       None \<Rightarrow> s1
                     | Some s2 \<Rightarrow> s2)))"

definition handleEndChat :: "app \<Rightarrow> app" where
  "handleEndChat s =
     (let s1 = (case wsRef s of None \<Rightarrow> s | Some i \<Rightarrow> ws_close i s)
      in s1\<lparr>messages := [], input := [], isTyping := False, hasPendingBotResponse := False,
            contactId := None, participantToken := None, wsRef := None\<rparr>)"

definition handleClearMessages :: "app \<Rightarrow> app" where
  "handleClearMessages s = s\<lparr>messages := []\<rparr>"

text \<open>\<open>setInput(e.target.value)\<close>, the input field's change handler.\<close>

definition setInput :: "string \<Rightarrow> app \<Rightarrow> app" where
  "setInput v s = s\<lparr>input := v\<rparr>"

subsection \<open>Events and runs\<close>

text \<open>
  What the browser does with a socket: \<open>open\<close> fires once on a connecting socket,
  \<open>message\<close> only on an open one, \<open>close\<close> once and leaves it closed. Each event runs the
  handler that \<open>initializeChat\<close> attached to that socket.
\<close>

datatype ws_event = WsOpen | WsMessage "in_frame parsed" | WsError | WsClose

definition deliver :: "nat \<Rightarrow> ws_event \<Rightarrow> app \<Rightarrow> app" where
  "deliver i ev s =
     (if i < length (sockets s) then
        (case ev of
           WsOpen \<Rightarrow>
             if readyState (sockets s ! i) = CONNECTING then ws_onopen i (setReadyState i OPEN s)
             else s
         | WsMessage d \<Rightarrow>
             if readyState (sockets s ! i) = OPEN
             then ws_onmessage (closureWidgetOpen (sockets s ! i)) d s
             else s
         | WsError \<Rightarrow> if readyState (sockets s ! i) = CLOSED then s else ws_onerror s
         | WsClose \<Rightarrow>
             if readyState (sockets s ! i) = CLOSED then s
             else ws_onclose (setReadyState i CLOSED s))
      else s)"

text \<open>
  The events of the component. \<open>EndChat\<close> is a call of \<open>handleEndChat\<close>; the rendered tree
  binds the other handlers to its buttons and form.
\<close>

datatype event =
    OpenChat "start_chat_data parsed fetch_result" bool
  | MinimizeChat
  | ClearMessages
  | EndChat
  | SetInput string
  | Submit nat "unit fetch_result"
  | Socket nat ws_event

fun step :: "event \<Rightarrow> app \<Rightarrow> app" where
  "step (OpenChat res ctor_ok) s = openChat res ctor_ok s"
| "step MinimizeChat s = handleMinimizeChat s"
| "step ClearMessages s = handleClearMessages s"
| "step EndChat s = handleEndChat s"
| "step (SetInput v) s = setInput v s"
| "step (Submit now res) s = handleSubmit now res s"
| "step (Socket i ev) s = deliver i ev s"

definition run :: "event list \<Rightarrow> app \<Rightarrow> app" where
  "run es s = fold step es s"

section \<open>The server: the two endpoints\<close>

text \<open>
  The AWS clients are parameters: a command goes in, an error or an output comes back.
  An error carries its message and \<open>$metadata?.httpStatusCode\<close>.
\<close>

datatype aws_error = AwsError string "nat option"

record start_chat_output =
  ContactId :: "string option"
  ParticipantToken :: "string option"

record connection_output =
  ConnectionCredentials :: "string option option"
  Websocket :: "string option option"

record send_message_command =
  cmd_ConnectionToken :: "string option"
  cmd_Content :: "string option"
  cmd_ContentType :: string

record send_message_output =
  Id :: "string option"
  out_AbsoluteTime :: "string option"

datatype response_body =
    ErrorBody string string "nat option"
  | StartChatBody start_chat_data
  | SendBody bool "string option" "string option"

record response =
  status :: nat
  body :: response_body

text \<open>\<open>error.$metadata?.httpStatusCode || 500\<close>\<close>

definition error_code :: "nat option \<Rightarrow> nat" where
  "error_code c = (case c of None \<Rightarrow> 500 | Some n \<Rightarrow> if n = 0 then 500 else n)"

text \<open>\<open>a?.b\<close> on an optional object whose property is itself optional.\<close>

definition opt_chain :: "string option option \<Rightarrow> string option" where
  "opt_chain v = (case v of None \<Rightarrow> None | Some p \<Rightarrow> p)"

text \<open>\<open>v || d\<close> on an optional string.\<close>

definition or_else :: "string option \<Rightarrow> string \<Rightarrow> string" where
  "or_else v d = (case v of None \<Rightarrow> d | Some t \<Rightarrow> if t = [] then d else t)"

definition start_chat ::
  "(string \<Rightarrow> aws_error + start_chat_output) \<Rightarrow> (string option \<Rightarrow> aws_error + connection_output)
   \<Rightarrow> string option \<Rightarrow> response" where
  "start_chat connectClient participantClient displayName =
     (case connectClient (or_else displayName ''Customer'') of
        Inl (AwsError m c) \<Rightarrow>
          \<lparr>status = 500, body = ErrorBody ''ChatInitializationError'' m (Some (error_code c))\<rparr>
      | Inr startResponse \<Rightarrow>
          (case participantClient (ParticipantToken startResponse) of
             Inl (AwsError m c) \<Rightarrow>
               \<lparr>status = 500, body = ErrorBody ''ChatInitializationError'' m (Some (error_code c))\<rparr>
           | Inr connResponse \<Rightarrow>
               \<lparr>status = 200,
                body = StartChatBody
                  \<lparr>data_contactId = ContactId startResponse,
                   data_participantToken = ParticipantToken startResponse,
                   data_websocketUrl = opt_chain (Websocket connResponse),
                   data_connectionToken = opt_chain (ConnectionCredentials connResponse)\<rparr>\<rparr>))"

text \<open>
  The send endpoint returns its response and the commands it handed to the participant
  client, so that a request that never reaches the transport shows as an empty list.
\<close>

record send_body =
  body_connectionToken :: "string option"
  body_content :: "string option"

definition send_message ::
  "(send_message_command \<Rightarrow> aws_error + send_message_output) \<Rightarrow> send_body
   \<Rightarrow> response \<times> send_message_command list" where
  "send_message client b =
     (if \<not> truthy (body_connectionToken b) \<or> \<not> truthy (body_content b) then
        (\<lparr>status = 400,
          body = ErrorBody ''MissingParameters'' ''connectionToken and content are required'' None\<rparr>,
         [])
      else
        let command = \<lparr>cmd_ConnectionToken = body_connectionToken b,
                        cmd_Content = body_content b, cmd_ContentType = ''text/plain''\<rparr>
        in case client command of
             Inr r \<Rightarrow> (\<lparr>status = 200, body = SendBody True (Id r) (out_AbsoluteTime r)\<rparr>, [command])
           | Inl (AwsError m c) \<Rightarrow>
               (\<lparr>status = 500, body = ErrorBody ''MessageSendError'' m (Some (error_code c))\<rparr>,
                [command]))"

text \<open>The body that \<open>handleSubmit\<close> stringifies, as the endpoint reads it.\<close>

fun request_body :: "request \<Rightarrow> send_body option" where
  "request_body StartChat = None"
| "request_body (SendMessage t c) = Some \<lparr>body_connectionToken = t, body_content = c\<rparr>"

section \<open>Vocabulary of the properties\<close>

text \<open>The four fields that identify a session, in the order of their declaration.\<close>

definition session :: "app \<Rightarrow> string option \<times> string option \<times> string option \<times> string option" where
  "session s = (contactId s, participantToken s, connectionToken s, wsUrl s)"

definition session_absent :: "app \<Rightarrow> bool" where
  "session_absent s = (contactId s = None \<and> participantToken s = None
     \<and> connectionToken s = None \<and> wsUrl s = None)"

text \<open>The three fields that \<open>initializeChat\<close> requires and \<open>handleSubmit\<close> tests.\<close>

definition required_fields_set :: "app \<Rightarrow> bool" where
  "required_fields_set s =
     (truthy (contactId s) \<and> truthy (participantToken s) \<and> truthy (wsUrl s))"

text \<open>The guard of \<open>handleSubmit\<close> lets the submission through.\<close>

definition can_submit :: "app \<Rightarrow> bool" where
  "can_submit s = (trim (input s) \<noteq> [] \<and> required_fields_set s)"

text \<open>
  The awaited send call failed: the promise rejected (transport failure) or the response
  is not one of the statuses 200 to 299 (\<open>response.ok\<close> is false).
\<close>

definition send_failed :: "'a fetch_result \<Rightarrow> bool" where
  "send_failed res = (case res of Rejected \<Rightarrow> True | Resolved st b \<Rightarrow> \<not> (200 \<le> st \<and> st \<le> 299))"

text \<open>The optimistic message that \<open>handleSubmit\<close> builds from the input and the clock.\<close>

definition userMessage :: "nat \<Rightarrow> app \<Rightarrow> message" where
  "userMessage now s =
     \<lparr>content = Some (input s), sender = User, timestamp = Now now, isLoading = Some True\<rparr>"

section \<open>Sample inputs\<close>

definition d_full :: start_chat_data where
  "d_full = \<lparr>data_contactId = Some ''c1'', data_participantToken = Some ''p1'',
     data_websocketUrl = Some ''wss://x'', data_connectionToken = Some ''k1''\<rparr>"

definition d_second :: start_chat_data where
  "d_second = \<lparr>data_contactId = Some ''c2'', data_participantToken = Some ''p2'',
     data_websocketUrl = Some ''wss://y'', data_connectionToken = Some ''k2''\<rparr>"

definition d_no_token :: start_chat_data where
  "d_no_token = \<lparr>data_contactId = Some ''c1'', data_participantToken = Some ''p1'',
     data_websocketUrl = Some ''wss://x'', data_connectionToken = None\<rparr>"

definition d_no_url :: start_chat_data where
  "d_no_url = \<lparr>data_contactId = Some ''c1'', data_participantToken = Some ''p1'',
     data_websocketUrl = None, data_connectionToken = Some ''k1''\<rparr>"

definition e_agent_hi :: envelope where
  "e_agent_hi = \<lparr>Type = Some ''MESSAGE'', ParticipantRole = Some ''AGENT'',
     Content = Some ''hi'', AbsoluteTime = Some ''T'', State = None\<rparr>"

definition f_agent_hi :: in_frame where
  "f_agent_hi = \<lparr>frame_topic = Some ''aws/chat'', frame_content = JObject e_agent_hi\<rparr>"

definition e_customer_echo :: envelope where
  "e_customer_echo = \<lparr>Type = Some ''MESSAGE'', ParticipantRole = Some ''CUSTOMER'',
     Content = Some ''hello'', AbsoluteTime = Some ''T'', State = None\<rparr>"

definition f_customer_echo :: in_frame where
  "f_customer_echo = \<lparr>frame_topic = Some ''aws/chat'', frame_content = JObject e_customer_echo\<rparr>"

definition e_typing_started :: envelope where
  "e_typing_started = \<lparr>Type = Some ''TYPING'', ParticipantRole = Some ''AGENT'',
     Content = None, AbsoluteTime = Some ''T'', State = Some ''STARTED''\<rparr>"

definition f_typing_started :: in_frame where
  "f_typing_started = \<lparr>frame_topic = Some ''aws/typing'', frame_content = JObject e_typing_started\<rparr>"

text \<open>A session after a complete bootstrap, with the socket open and subscribed.\<close>

definition booted :: app where
  "booted = run [OpenChat (Resolved 200 (JObject d_full)) True, Socket 0 WsOpen] init"

text \<open>The same after the user typed and submitted \<open>hello\<close> at time 5.\<close>

definition sent_hello :: app where
  "sent_hello = run [SetInput ''hello'', Submit 5 (Resolved 200 ())] booted"

text \<open>The same after the agent's \<open>hi\<close> was delivered.\<close>

definition replied :: app where
  "replied = run [Socket 0 (WsMessage (JObject f_agent_hi))] sent_hello"

section \<open>Frame lemmas: what each operation leaves alone\<close>

lemma ws_send_frame:
  "ws_send i fr s = Some s' \<Longrightarrow> s' = s \<or> s' = s\<lparr>sockets := queue i fr (sockets s)\<rparr>"
  by (auto simp: ws_send_def split: if_splits ready_state.splits)

lemma queue_readyState: "map readyState (queue i fr ss) = map readyState ss"
proof (cases "i < length ss")
  case True
  then show ?thesis by (simp add: queue_def map_update list_update_same_conv)
next
  case False
  then show ?thesis by (simp add: queue_def list_update_beyond)
qed

lemma queue_url: "map url (queue i fr ss) = map url ss"
proof (cases "i < length ss")
  case True
  then show ?thesis by (simp add: queue_def map_update list_update_same_conv)
next
  case False
  then show ?thesis by (simp add: queue_def list_update_beyond)
qed

lemma session_sockets: "session (s\<lparr>sockets := ss\<rparr>) = session s"
  by (simp add: session_def)

lemma session_ws_onmessage: "session (ws_onmessage w d s) = session s"
  by (simp add: ws_onmessage_def session_def Let_def split: parsed.splits)

lemma session_ws_onopen: "session (ws_onopen i s) = session s"
proof (cases "ws_send i (OutFrame ''aws/subscribe'' (Topics [''aws/chat'', ''aws/typing''])) s")
  case None
  then show ?thesis by (simp add: ws_onopen_def)
next
  case (Some s')
  then have "session s' = session s" using ws_send_frame session_sockets by metis
  with Some show ?thesis by (simp add: ws_onopen_def session_def)
qed

lemma session_deliver: "session (deliver i ev s) = session s"
proof -
  have a: "session (setReadyState i r s) = session s" for r
    by (simp add: setReadyState_def session_def)
  have b: "session (ws_onopen i (setReadyState i OPEN s)) = session s"
    using session_ws_onopen a by metis
  have c: "session (ws_onclose (setReadyState i CLOSED s)) = session s"
    by (simp add: ws_onclose_def setReadyState_def session_def)
  have d: "session (ws_onerror s) = session s"
    by (simp add: ws_onerror_def session_def)
  show ?thesis
    by (simp add: deliver_def b c d session_ws_onmessage split: ws_event.splits)
qed

text \<open>
  \<open>handleSubmit\<close> returns the state untouched when its guard fails; otherwise it appends
  the optimistic message, empties the input, raises the pending flag and records the
  send call, and the only further change is a frame queued on the current socket.
\<close>

lemma handleSubmit_blocked: "\<not> can_submit s \<Longrightarrow> handleSubmit now res s = s"
  by (auto simp: handleSubmit_def can_submit_def required_fields_set_def)

lemma handleSubmit_passed:
  assumes "can_submit s"
  shows "\<exists>ss. handleSubmit now res s =
      s\<lparr>messages := messages s @ [userMessage now s], input := [],
        hasPendingBotResponse := True,
        requests := requests s @ [SendMessage (connectionToken s) (Some (input s))],
        sockets := ss\<rparr>
      \<and> map readyState ss = map readyState (sockets s) \<and> map url ss = map url (sockets s)"
proof -
  let ?s1 = "s\<lparr>messages := messages s @ [userMessage now s], input := [],
        hasPendingBotResponse := True,
        requests := requests s @ [SendMessage (connectionToken s) (Some (input s))]\<rparr>"
  let ?fr = "OutFrame ''aws/typing'' (Typing ''TYPING'' ''STOPPED'')"
  from assms have g: "\<not> (trim (input s) = [] \<or> \<not> truthy (contactId s)
      \<or> \<not> truthy (participantToken s) \<or> \<not> truthy (wsUrl s))"
    by (simp add: can_submit_def required_fields_set_def)
  have keep: "?s1 = ?s1\<lparr>sockets := sockets s\<rparr>" by simp
  show ?thesis
  proof (cases res)
    case Rejected
    with g have "handleSubmit now res s = ?s1\<lparr>sockets := sockets s\<rparr>"
      by (simp add: handleSubmit_def Let_def userMessage_def)
    then show ?thesis by blast
  next
    case (Resolved st b)
    show ?thesis
    proof (cases "wsRef s")
      case None
      with g Resolved have "handleSubmit now res s = ?s1\<lparr>sockets := sockets s\<rparr>"
        by (simp add: handleSubmit_def Let_def userMessage_def)
      then show ?thesis by blast
    next
      case (Some i)
      show ?thesis
      proof (cases "ws_send i ?fr ?s1")
        case None
        with g Resolved Some have "handleSubmit now res s = ?s1\<lparr>sockets := sockets s\<rparr>"
          by (simp add: handleSubmit_def Let_def userMessage_def)
        then show ?thesis by blast
      next
        case (Some s2)
        then have "s2 = ?s1 \<or> s2 = ?s1\<lparr>sockets := queue i ?fr (sockets s)\<rparr>"
          using ws_send_frame[of i ?fr ?s1 s2] by simp
        then show ?thesis
        proof
          assume "s2 = ?s1"
          with g Resolved \<open>wsRef s = Some i\<close> Some
          have "handleSubmit now res s = ?s1\<lparr>sockets := sockets s\<rparr>"
            by (simp add: handleSubmit_def Let_def userMessage_def)
          then show ?thesis by blast
        next
          assume "s2 = ?s1\<lparr>sockets := queue i ?fr (sockets s)\<rparr>"
          with g Resolved \<open>wsRef s = Some i\<close> Some
          have "handleSubmit now res s = ?s1\<lparr>sockets := queue i ?fr (sockets s)\<rparr>"
            by (simp add: handleSubmit_def Let_def userMessage_def)
          then show ?thesis using queue_readyState queue_url by blast
        qed
      qed
    qed
  qed
qed

lemma session_handleSubmit: "session (handleSubmit now res s) = session s"
proof (cases "can_submit s")
  case True
  from handleSubmit_passed[OF True, of now res] show ?thesis by (auto simp: session_def)
next
  case False
  then show ?thesis by (simp add: handleSubmit_blocked)
qed

lemma session_minimize: "session (handleMinimizeChat s) = session s"
  by (simp add: handleMinimizeChat_def session_def)

lemma session_clear: "session (handleClearMessages s) = session s"
  by (simp add: handleClearMessages_def session_def)

lemma session_setInput: "session (setInput v s) = session s"
  by (simp add: setInput_def session_def)

section \<open>The session fields along a run\<close>

lemma session_inv_session:
  "(session_absent s \<or> required_fields_set s) =
     (case session s of (c, p, k, u) \<Rightarrow>
        (c = None \<and> p = None \<and> k = None \<and> u = None) \<or> (truthy c \<and> truthy p \<and> truthy u))"
  by (simp add: session_def session_absent_def required_fields_set_def)

lemma initializeChat_inv:
  "session_absent s \<or> required_fields_set s \<Longrightarrow>
   session_absent (initializeChat res ok s) \<or> required_fields_set (initializeChat res ok s)"
  by (auto simp: initializeChat_def Let_def session_absent_def required_fields_set_def
      split: fetch_result.splits parsed.splits)

lemma step_inv:
  assumes "e \<noteq> EndChat" and "session_absent s \<or> required_fields_set s"
  shows "session_absent (step e s) \<or> required_fields_set (step e s)"
proof (cases e)
  case (OpenChat res ok)
  have "session_absent (s\<lparr>isWidgetOpen := True\<rparr>) \<or> required_fields_set (s\<lparr>isWidgetOpen := True\<rparr>)"
    using assms(2) by (simp add: session_absent_def required_fields_set_def)
  then show ?thesis using OpenChat assms(2) initializeChat_inv
    by (simp add: openChat_def)
next
  case EndChat
  with assms show ?thesis by simp
qed (use assms(2) in \<open>simp_all add: session_inv_session session_minimize session_clear
      session_setInput session_handleSubmit session_deliver\<close>)

lemma run_inv:
  "EndChat \<notin> set es \<Longrightarrow> session_absent s \<or> required_fields_set s \<Longrightarrow>
   session_absent (run es s) \<or> required_fields_set (run es s)"
proof (induction es arbitrary: s)
  case Nil
  then show ?case by (simp add: run_def)
next
  case (Cons e es)
  from Cons.prems have "e \<noteq> EndChat" by auto
  with Cons.prems have "session_absent (step e s) \<or> required_fields_set (step e s)"
    using step_inv by blast
  with Cons show ?case by (simp add: run_def)
qed

lemma handleEndChat_ids:
  "contactId (handleEndChat s) = None \<and> participantToken (handleEndChat s) = None"
  by (simp add: handleEndChat_def Let_def)

section \<open>Sample runs, evaluated\<close>

lemma booted_eq:
  "booted = \<lparr>messages = [], input = [], isTyping = False, isChatLoading = False,
     isWidgetOpen = True, hasNewMessage = False, hasPendingBotResponse = False,
     contactId = Some ''c1'', participantToken = Some ''p1'', connectionToken = Some ''k1'',
     wsUrl = Some ''wss://x'', wsRef = Some 0,
     sockets = [\<lparr>url = Some ''wss://x'', readyState = OPEN,
                 sent = [OutFrame ''aws/subscribe'' (Topics [''aws/chat'', ''aws/typing''])],
                 closureWidgetOpen = True\<rparr>],
     requests = [StartChat], soundsPlayed = 0\<rparr>"
  by (simp add: booted_def run_def init_def openChat_def initializeChat_def d_full_def
      truthy_def deliver_def setReadyState_def ws_onopen_def ws_send_def queue_def Let_def)

lemma trim_hello: "trim ''hello'' = ''hello''"
  by (simp add: trim_def js_space_def)

lemma sent_hello_eq:
  "sent_hello = \<lparr>messages = [\<lparr>content = Some ''hello'', sender = User, timestamp = Now 5,
                               isLoading = Some True\<rparr>],
     input = [], isTyping = False, isChatLoading = False,
     isWidgetOpen = True, hasNewMessage = False, hasPendingBotResponse = True,
     contactId = Some ''c1'', participantToken = Some ''p1'', connectionToken = Some ''k1'',
     wsUrl = Some ''wss://x'', wsRef = Some 0,
     sockets = [\<lparr>url = Some ''wss://x'', readyState = OPEN,
                 sent = [OutFrame ''aws/subscribe'' (Topics [''aws/chat'', ''aws/typing'']),
                         OutFrame ''aws/typing'' (Typing ''TYPING'' ''STOPPED'')],
                 closureWidgetOpen = True\<rparr>],
     requests = [StartChat, SendMessage (Some ''k1'') (Some ''hello'')], soundsPlayed = 0\<rparr>"
  by (simp add: sent_hello_def run_def booted_eq setInput_def handleSubmit_def trim_hello
      truthy_def ws_send_def queue_def Let_def)

lemma replied_eq:
  "replied = \<lparr>messages = [\<lparr>content = Some ''hello'', sender = User, timestamp = Now 5,
                             isLoading = Some False\<rparr>,
                           \<lparr>content = Some ''hi'', sender = Bot, timestamp = DateOf (Some ''T''),
                             isLoading = None\<rparr>],
     input = [], isTyping = False, isChatLoading = False,
     isWidgetOpen = True, hasNewMessage = False, hasPendingBotResponse = False,
     contactId = Some ''c1'', participantToken = Some ''p1'', connectionToken = Some ''k1'',
     wsUrl = Some ''wss://x'', wsRef = Some 0,
     sockets = [\<lparr>url = Some ''wss://x'', readyState = OPEN,
                 sent = [OutFrame ''aws/subscribe'' (Topics [''aws/chat'', ''aws/typing'']),
                         OutFrame ''aws/typing'' (Typing ''TYPING'' ''STOPPED'')],
                 closureWidgetOpen = True\<rparr>],
     requests = [StartChat, SendMessage (Some ''k1'') (Some ''hello'')], soundsPlayed = 1\<rparr>"
  by (simp add: replied_def run_def sent_hello_eq deliver_def ws_onmessage_def f_agent_hi_def
      e_agent_hi_def clearLoading_def Let_def)

section \<open>The log along a step\<close>

lemma clearLoading_sender: "sender (clearLoading m) = sender m"
  by (simp add: clearLoading_def)

lemma clearLoading_content: "content (clearLoading m) = content m"
  by (simp add: clearLoading_def)

lemma user_contents_clearLoading:
  "map content (filter (\<lambda>m. sender m = User) (map clearLoading ms))
   = map content (filter (\<lambda>m. sender m = User) ms)"
  by (induction ms) (simp_all add: clearLoading_sender clearLoading_content)

lemma messages_ws_onmessage:
  "messages (ws_onmessage w d s) = messages s
   \<or> (\<exists>nm. sender nm = Bot \<and> isLoading nm = None
         \<and> messages (ws_onmessage w d s) = map clearLoading (messages s) @ [nm])"
  by (simp add: ws_onmessage_def Let_def split: parsed.splits)

lemma clearLoading_not_pending:
  "isLoading m \<noteq> Some True \<Longrightarrow> isLoading (clearLoading m) \<noteq> Some True"
  by (simp add: clearLoading_def)

lemma clearLoading_cases:
  "clearLoading m = (if isLoading m = Some True \<and> sender m = User
                     then m\<lparr>isLoading := Some False\<rparr> else m)"
  by (simp add: clearLoading_def)

lemma messages_initializeChat: "messages (initializeChat res ok s) = messages s"
  by (simp add: initializeChat_def Let_def split: fetch_result.splits parsed.splits)

lemma messages_ws_onopen: "messages (ws_onopen i s) = messages s"
proof (cases "ws_send i (OutFrame ''aws/subscribe'' (Topics [''aws/chat'', ''aws/typing''])) s")
  case None
  then show ?thesis by (simp add: ws_onopen_def)
next
  case (Some s')
  then have "messages s' = messages s" using ws_send_frame by fastforce
  with Some show ?thesis by (simp add: ws_onopen_def)
qed

lemma messages_deliver:
  "messages (deliver i ev s) = messages s
   \<or> (\<exists>nm. messages (deliver i ev s) = map clearLoading (messages s) @ [nm])"
proof (cases ev)
  case WsOpen
  have "messages (ws_onopen i (setReadyState i OPEN s)) = messages s"
    by (simp add: messages_ws_onopen setReadyState_def)
  with WsOpen show ?thesis by (simp add: deliver_def)
next
  case (WsMessage d)
  with messages_ws_onmessage[of "closureWidgetOpen (sockets s ! i)" d s]
  show ?thesis by (auto simp: deliver_def)
next
  case WsError
  then show ?thesis by (simp add: deliver_def ws_onerror_def)
next
  case WsClose
  then show ?thesis by (simp add: deliver_def ws_onclose_def setReadyState_def)
qed

lemma messages_handleSubmit:
  "messages (handleSubmit now res s) = messages s
   \<or> messages (handleSubmit now res s) = messages s @ [userMessage now s]"
proof (cases "can_submit s")
  case True
  from handleSubmit_passed[OF True, of now res] show ?thesis by auto
next
  case False
  then show ?thesis by (simp add: handleSubmit_blocked)
qed

text \<open>One step resets the log, or appends to it, or flips pending flags and appends.\<close>

lemma messages_step:
  "messages (step ev s) = []
   \<or> (\<exists>extra. messages (step ev s) = messages s @ extra)
   \<or> (\<exists>extra. messages (step ev s) = map clearLoading (messages s) @ extra)"
proof (cases ev)
  case (OpenChat res ok)
  then show ?thesis by (simp add: openChat_def messages_initializeChat)
next
  case MinimizeChat
  then show ?thesis by (simp add: handleMinimizeChat_def)
next
  case ClearMessages
  then show ?thesis by (simp add: handleClearMessages_def)
next
  case EndChat
  then show ?thesis by (simp add: handleEndChat_def Let_def)
next
  case (SetInput v)
  then show ?thesis by (simp add: setInput_def)
next
  case (Submit now res)
  with messages_handleSubmit[of now res s] show ?thesis by auto
next
  case (Socket i e)
  with messages_deliver[of i e s] show ?thesis by auto
qed

lemma pending_never_returns:
  assumes "i < length (messages s)" and "i < length (messages (step ev s))"
    and "isLoading (messages s ! i) \<noteq> Some True"
  shows "isLoading (messages (step ev s) ! i) \<noteq> Some True"
proof -
  from messages_step[of ev s] consider
      "messages (step ev s) = []"
    | extra where "messages (step ev s) = messages s @ extra"
    | extra where "messages (step ev s) = map clearLoading (messages s) @ extra"
    by blast
  then show ?thesis
  proof cases
    case 1
    with assms(2) show ?thesis by simp
  next
    case 2
    with assms show ?thesis by (simp add: nth_append)
  next
    case 3
    with assms show ?thesis by (simp add: nth_append clearLoading_not_pending)
  qed
qed

section \<open>C1: the session fields\<close>

text \<open>
  C1, as amended. In every state reached from the initial one by a run without a call of
  \<open>handleEndChat\<close>, either all four session fields are absent, or \<open>contactId\<close>,
  \<open>participantToken\<close> and the push-channel address \<open>wsUrl\<close> are all set (the guard of
  \<open>initializeChat\<close> does not ask for \<open>connectionToken\<close>, which is stored as the response
  gave it). After \<open>handleEndChat\<close>, \<open>contactId\<close> and \<open>participantToken\<close> are absent.
\<close>

theorem session_fields_without_end:
  "(EndChat \<notin> set es \<longrightarrow> session_absent (run es init) \<or> required_fields_set (run es init))
   \<and> contactId (handleEndChat s) = None \<and> participantToken (handleEndChat s) = None"
  using run_inv[of es init] handleEndChat_ids[of s]
  by (simp add: session_absent_def init_def)

text \<open>
  Witness for C1: the run that boots a session contains no \<open>EndChat\<close> and ends with the
  three required fields set; ending that session clears the two identifiers.
\<close>

theorem session_fields_without_end_witness:
  "EndChat \<notin> set [OpenChat (Resolved 200 (JObject d_full)) True, Socket 0 WsOpen]
   \<and> required_fields_set booted
   \<and> contactId (handleEndChat booted) = None \<and> participantToken (handleEndChat booted) = None"
proof -
  have h: "EndChat \<notin> set [OpenChat (Resolved 200 (JObject d_full)) True, Socket 0 WsOpen]"
    by simp
  have n: "\<not> session_absent booted"
    by (simp add: booted_eq session_absent_def)
  from session_fields_without_end
    [of "[OpenChat (Resolved 200 (JObject d_full)) True, Socket 0 WsOpen]" booted] h n
  show ?thesis unfolding booted_def[symmetric] by blast
qed

text \<open>
  Counterexample to C1 as stated. A bootstrap whose response carries no
  \<open>connectionToken\<close> passes the guard and leaves three fields set and one absent; and
  \<open>handleEndChat\<close> on a booted session resets \<open>contactId\<close> and \<open>participantToken\<close> only, so
  \<open>connectionToken\<close> and \<open>wsUrl\<close> keep their values.
\<close>

theorem session_all_or_none_counterexample:
  "contactId (run [OpenChat (Resolved 200 (JObject d_no_token)) True] init) = Some ''c1''
   \<and> participantToken (run [OpenChat (Resolved 200 (JObject d_no_token)) True] init) = Some ''p1''
   \<and> wsUrl (run [OpenChat (Resolved 200 (JObject d_no_token)) True] init) = Some ''wss://x''
   \<and> connectionToken (run [OpenChat (Resolved 200 (JObject d_no_token)) True] init) = None
   \<and> contactId (handleEndChat booted) = None
   \<and> participantToken (handleEndChat booted) = None
   \<and> connectionToken (handleEndChat booted) = Some ''k1''
   \<and> wsUrl (handleEndChat booted) = Some ''wss://x''"
  by (simp add: run_def init_def openChat_def initializeChat_def d_no_token_def truthy_def
      Let_def booted_eq handleEndChat_def ws_close_def setReadyState_def)

section \<open>C2: minimising and reopening\<close>

lemma minimize_keeps:
  "messages (handleMinimizeChat s) = messages s \<and> session (handleMinimizeChat s) = session s
   \<and> wsRef (handleMinimizeChat s) = wsRef s \<and> sockets (handleMinimizeChat s) = sockets s
   \<and> requests (handleMinimizeChat s) = requests s"
  by (simp add: handleMinimizeChat_def session_def)

lemma minimized_eq:
  "run [MinimizeChat] booted = booted\<lparr>isWidgetOpen := False\<rparr>"
  by (simp add: run_def booted_eq handleMinimizeChat_def)

text \<open>
  C2, evaluated on the code. The claim says that reopening a minimised widget performs no
  new bootstrap and keeps the connected channel. On a booted session, minimising keeps
  the log, the session, the socket and the reference to it; reopening runs
  \<open>initializeChat\<close> again: a second bootstrap call is issued, the session fields are
  replaced by those of the new response, a second socket is created, and \<open>wsRef\<close> moves to
  it while the first socket stays open with its handlers attached.
\<close>

theorem reopen_bootstraps_again:
  "requests (run [MinimizeChat] booted) = [StartChat]
   \<and> wsRef (run [MinimizeChat] booted) = Some 0
   \<and> session (run [MinimizeChat] booted) = (Some ''c1'', Some ''p1'', Some ''k1'', Some ''wss://x'')
   \<and> map readyState (sockets (run [MinimizeChat] booted)) = [OPEN]
   \<and> requests (run [MinimizeChat, OpenChat (Resolved 200 (JObject d_second)) True] booted)
       = [StartChat, StartChat]
   \<and> wsRef (run [MinimizeChat, OpenChat (Resolved 200 (JObject d_second)) True] booted) = Some 1
   \<and> session (run [MinimizeChat, OpenChat (Resolved 200 (JObject d_second)) True] booted)
       = (Some ''c2'', Some ''p2'', Some ''k2'', Some ''wss://y'')
   \<and> map readyState (sockets (run [MinimizeChat, OpenChat (Resolved 200 (JObject d_second)) True] booted))
       = [OPEN, CONNECTING]"
  by (simp add: run_def booted_eq handleMinimizeChat_def openChat_def initializeChat_def
      d_second_def truthy_def session_def Let_def)

section \<open>C3: a remote message and the typing signal\<close>

text \<open>
  C3, as amended. When a chat message of a role other than \<open>CUSTOMER\<close> is delivered, the
  handler sets \<open>hasPendingBotResponse\<close> to false and leaves the typing signal \<open>isTyping\<close> as
  it was: only typing events (and minimising or ending) write \<open>isTyping\<close>.
\<close>

theorem remote_message_leaves_typing:
  assumes "frame_topic f = Some ''aws/chat''" and "frame_content f = JObject e"
    and "Type e = Some ''MESSAGE''" and "ParticipantRole e \<noteq> Some ''CUSTOMER''"
  shows "isTyping (ws_onmessage w (JObject f) s) = isTyping s
         \<and> hasPendingBotResponse (ws_onmessage w (JObject f) s) = False"
  using assms by (simp add: ws_onmessage_def Let_def)

text \<open>
  Witness for C3: the agent's message \<open>hi\<close> delivered after \<open>hello\<close> was sent drops the
  pending flag and keeps the typing signal.
\<close>

theorem remote_message_leaves_typing_witness:
  "frame_topic f_agent_hi = Some ''aws/chat'' \<and> frame_content f_agent_hi = JObject e_agent_hi
   \<and> Type e_agent_hi = Some ''MESSAGE'' \<and> ParticipantRole e_agent_hi \<noteq> Some ''CUSTOMER''
   \<and> isTyping (ws_onmessage True (JObject f_agent_hi) sent_hello) = isTyping sent_hello
   \<and> hasPendingBotResponse sent_hello
   \<and> \<not> hasPendingBotResponse (ws_onmessage True (JObject f_agent_hi) sent_hello)"
proof -
  have h1: "frame_topic f_agent_hi = Some ''aws/chat''" by (simp add: f_agent_hi_def)
  have h2: "frame_content f_agent_hi = JObject e_agent_hi" by (simp add: f_agent_hi_def)
  have h3: "Type e_agent_hi = Some ''MESSAGE''" by (simp add: e_agent_hi_def)
  have h4: "ParticipantRole e_agent_hi \<noteq> Some ''CUSTOMER''" by (simp add: e_agent_hi_def)
  have p: "hasPendingBotResponse sent_hello" by (simp add: sent_hello_eq)
  from remote_message_leaves_typing[OF h1 h2 h3 h4, of True sent_hello] h1 h2 h3 h4 p
  show ?thesis by simp
qed

text \<open>
  Counterexample to C3 as stated: on a booted session the agent starts typing, then the
  agent's message is delivered; the typing signal is true before and still true after.
\<close>

theorem remote_message_typing_counterexample:
  "isTyping (run [Socket 0 (WsMessage (JObject f_typing_started))] booted)
   \<and> isTyping (run [Socket 0 (WsMessage (JObject f_typing_started)),
                     Socket 0 (WsMessage (JObject f_agent_hi))] booted)"
  by (simp add: run_def booted_eq deliver_def ws_onmessage_def f_typing_started_def
      e_typing_started_def f_agent_hi_def e_agent_hi_def Let_def)

section \<open>C4: the pending flags\<close>

text \<open>
  C4. Handling a chat message of a role other than \<open>CUSTOMER\<close> maps \<open>clearLoading\<close> over
  the log and then appends the remote message: \<open>clearLoading\<close> turns the flag of a pending
  user message to false and changes no other message, so afterwards no user message of
  the log is pending. The flip is not undone: no step of the component turns the flag of
  a message that stays in the log (same position) from not pending to pending.
\<close>

theorem remote_message_flips_pending:
  assumes "frame_topic f = Some ''aws/chat''" and "frame_content f = JObject e"
    and "Type e = Some ''MESSAGE''" and "ParticipantRole e \<noteq> Some ''CUSTOMER''"
  shows "messages (ws_onmessage w (JObject f) s) =
           map clearLoading (messages s) @
           [\<lparr>content = Content e, sender = Bot, timestamp = DateOf (AbsoluteTime e),
             isLoading = None\<rparr>]
         \<and> (\<forall>m. clearLoading m = (if isLoading m = Some True \<and> sender m = User
                                   then m\<lparr>isLoading := Some False\<rparr> else m))
         \<and> (\<forall>m \<in> set (messages (ws_onmessage w (JObject f) s)).
               sender m = User \<longrightarrow> isLoading m \<noteq> Some True)
         \<and> (\<forall>ev t i. i < length (messages t) \<and> i < length (messages (step ev t))
               \<and> isLoading (messages t ! i) \<noteq> Some True
               \<longrightarrow> isLoading (messages (step ev t) ! i) \<noteq> Some True)"
proof -
  have a: "messages (ws_onmessage w (JObject f) s) =
           map clearLoading (messages s) @
           [\<lparr>content = Content e, sender = Bot, timestamp = DateOf (AbsoluteTime e),
             isLoading = None\<rparr>]"
    using assms by (simp add: ws_onmessage_def Let_def)
  have b: "\<forall>m \<in> set (messages (ws_onmessage w (JObject f) s)).
               sender m = User \<longrightarrow> isLoading m \<noteq> Some True"
    unfolding a by (auto simp: clearLoading_def)
  from a b clearLoading_cases pending_never_returns show ?thesis by blast
qed

text \<open>
  Witness for C4: the agent's \<open>hi\<close> after \<open>hello\<close> was sent flips the flag of \<open>hello\<close> and is
  appended behind it; a second delivery leaves the flag of \<open>hello\<close> false.
\<close>

theorem remote_message_flips_pending_witness:
  "frame_topic f_agent_hi = Some ''aws/chat'' \<and> frame_content f_agent_hi = JObject e_agent_hi
   \<and> Type e_agent_hi = Some ''MESSAGE'' \<and> ParticipantRole e_agent_hi \<noteq> Some ''CUSTOMER''
   \<and> messages sent_hello =
       [\<lparr>content = Some ''hello'', sender = User, timestamp = Now 5, isLoading = Some True\<rparr>]
   \<and> messages (ws_onmessage True (JObject f_agent_hi) sent_hello) =
       [\<lparr>content = Some ''hello'', sender = User, timestamp = Now 5, isLoading = Some False\<rparr>,
        \<lparr>content = Some ''hi'', sender = Bot, timestamp = DateOf (Some ''T''), isLoading = None\<rparr>]
   \<and> 0 < length (messages replied)
   \<and> 0 < length (messages (step (Socket 0 (WsMessage (JObject f_agent_hi))) replied))
   \<and> isLoading (messages replied ! 0) \<noteq> Some True
   \<and> isLoading (messages (step (Socket 0 (WsMessage (JObject f_agent_hi))) replied) ! 0)
       \<noteq> Some True"
proof -
  have h1: "frame_topic f_agent_hi = Some ''aws/chat''" by (simp add: f_agent_hi_def)
  have h2: "frame_content f_agent_hi = JObject e_agent_hi" by (simp add: f_agent_hi_def)
  have h3: "Type e_agent_hi = Some ''MESSAGE''" by (simp add: e_agent_hi_def)
  have h4: "ParticipantRole e_agent_hi \<noteq> Some ''CUSTOMER''" by (simp add: e_agent_hi_def)
  have m: "messages sent_hello =
       [\<lparr>content = Some ''hello'', sender = User, timestamp = Now 5, isLoading = Some True\<rparr>]"
    by (simp add: sent_hello_eq)
  note inst = remote_message_flips_pending[OF h1 h2 h3 h4, of True sent_hello]
  from inst
  have a: "messages (ws_onmessage True (JObject f_agent_hi) sent_hello) =
           map clearLoading (messages sent_hello) @
           [\<lparr>content = Content e_agent_hi, sender = Bot,
             timestamp = DateOf (AbsoluteTime e_agent_hi), isLoading = None\<rparr>]"
    by blast
  have l1: "0 < length (messages replied)" and l3: "isLoading (messages replied ! 0) \<noteq> Some True"
    by (simp_all add: replied_eq)
  have l2: "0 < length (messages (step (Socket 0 (WsMessage (JObject f_agent_hi))) replied))"
    by (simp add: replied_eq deliver_def ws_onmessage_def f_agent_hi_def e_agent_hi_def Let_def)
  from inst l1 l2 l3
  have b: "isLoading (messages (step (Socket 0 (WsMessage (JObject f_agent_hi))) replied) ! 0)
             \<noteq> Some True"
    by blast
  from a b l1 l2 l3 h1 h2 h3 h4 m show ?thesis by (simp add: clearLoading_def e_agent_hi_def)
qed

section \<open>C5: typing events\<close>

text \<open>
  C5. Handling a typing-topic frame whose envelope has type \<open>TYPING\<close> changes nothing but
  the typing signal, which becomes true exactly when the state is \<open>STARTED\<close> and the role
  is not \<open>CUSTOMER\<close>, whatever it was before: a \<open>STOPPED\<close> from a remote role and a
  \<open>STARTED\<close> from the local role both clear it.
\<close>

theorem typing_event_sets_signal:
  assumes "frame_topic f = Some ''aws/typing''" and "frame_content f = JObject e"
    and "Type e = Some ''TYPING''"
  shows "ws_onmessage w (JObject f) s =
           s\<lparr>isTyping := (State e = Some ''STARTED'' \<and> ParticipantRole e \<noteq> Some ''CUSTOMER'')\<rparr>"
  using assms by (simp add: ws_onmessage_def)

text \<open>Witness for C5: the agent's \<open>STARTED\<close> event raises the signal on a booted session.\<close>

theorem typing_event_sets_signal_witness:
  "frame_topic f_typing_started = Some ''aws/typing''
   \<and> frame_content f_typing_started = JObject e_typing_started
   \<and> Type e_typing_started = Some ''TYPING''
   \<and> ws_onmessage True (JObject f_typing_started) booted = booted\<lparr>isTyping := True\<rparr>"
proof -
  have h1: "frame_topic f_typing_started = Some ''aws/typing''" by (simp add: f_typing_started_def)
  have h2: "frame_content f_typing_started = JObject e_typing_started"
    by (simp add: f_typing_started_def)
  have h3: "Type e_typing_started = Some ''TYPING''" by (simp add: e_typing_started_def)
  have v: "(State e_typing_started = Some ''STARTED''
            \<and> ParticipantRole e_typing_started \<noteq> Some ''CUSTOMER'') = True"
    by (simp add: e_typing_started_def)
  from typing_event_sets_signal[OF h1 h2 h3, of True booted] h1 h2 h3 v
  show ?thesis by simp
qed

section \<open>C6: a bootstrap response with a required field missing\<close>

text \<open>
  C6. When the bootstrap response lacks \<open>contactId\<close>, \<open>participantToken\<close> or
  \<open>websocketUrl\<close> (absent or empty), \<open>initializeChat\<close> throws before any setter runs and
  before the socket is constructed: the state is the one before the call, with the
  loading flag reset and the bootstrap call recorded. Opening the widget from the initial
  state with such a response leaves the session absent, no socket, no reference to one
  and an empty log, and no input makes the guard of \<open>handleSubmit\<close> pass.
\<close>

theorem bootstrap_missing_field_fails:
  assumes "\<not> truthy (data_contactId d) \<or> \<not> truthy (data_participantToken d)
           \<or> \<not> truthy (data_websocketUrl d)"
  shows "initializeChat (Resolved st (JObject d)) ctor_ok s =
           s\<lparr>isChatLoading := False, requests := requests s @ [StartChat]\<rparr>
         \<and> openChat (Resolved st (JObject d)) ctor_ok init =
             init\<lparr>isWidgetOpen := True, requests := [StartChat]\<rparr>
         \<and> session_absent (openChat (Resolved st (JObject d)) ctor_ok init)
         \<and> \<not> can_submit (setInput v (openChat (Resolved st (JObject d)) ctor_ok init))
         \<and> sockets (openChat (Resolved st (JObject d)) ctor_ok init) = []
         \<and> wsRef (openChat (Resolved st (JObject d)) ctor_ok init) = None
         \<and> messages (openChat (Resolved st (JObject d)) ctor_ok init) = []"
proof -
  have a: "initializeChat (Resolved st (JObject d)) ctor_ok t =
           t\<lparr>isChatLoading := False, requests := requests t @ [StartChat]\<rparr>" for t
    using assms by (auto simp: initializeChat_def Let_def)
  have b: "openChat (Resolved st (JObject d)) ctor_ok init =
             init\<lparr>isWidgetOpen := True, requests := [StartChat]\<rparr>"
    by (simp add: openChat_def a) (simp add: init_def)
  show ?thesis
    unfolding b using a[of s]
    by (simp add: init_def session_absent_def can_submit_def required_fields_set_def
        setInput_def truthy_def)
qed

text \<open>Witness for C6: a response without \<open>websocketUrl\<close>, on the first opening.\<close>

theorem bootstrap_missing_field_fails_witness:
  "\<not> truthy (data_websocketUrl d_no_url)
   \<and> run [OpenChat (Resolved 200 (JObject d_no_url)) True] init =
       init\<lparr>isWidgetOpen := True, requests := [StartChat]\<rparr>
   \<and> \<not> can_submit (setInput ''hello'' (run [OpenChat (Resolved 200 (JObject d_no_url)) True] init))"
proof -
  have h: "\<not> truthy (data_websocketUrl d_no_url)" by (simp add: d_no_url_def truthy_def)
  then have "\<not> truthy (data_contactId d_no_url) \<or> \<not> truthy (data_participantToken d_no_url)
      \<or> \<not> truthy (data_websocketUrl d_no_url)" by simp
  from bootstrap_missing_field_fails[OF this, of 200 True init "''hello''"]
  have "openChat (Resolved 200 (JObject d_no_url)) True init =
          init\<lparr>isWidgetOpen := True, requests := [StartChat]\<rparr>"
    and "\<not> can_submit (setInput ''hello'' (openChat (Resolved 200 (JObject d_no_url)) True init))"
    by blast+
  with h show ?thesis by (simp only: run_def fold_simps step.simps id_apply comp_apply simp_thms)

qed

section \<open>C7: clearing the log\<close>

text \<open>
  C7. \<open>handleClearMessages\<close> sets the log to the empty list and nothing else: the session
  fields, \<open>wsRef\<close>, the sockets and the calls issued are as before, and the guard of
  \<open>handleSubmit\<close> passes after it exactly when it passed before. A submission after the
  clearing then puts the optimistic message in the log, issues the send call with the
  session's \<open>connectionToken\<close> and no bootstrap call, and keeps the session and the socket
  reference.
\<close>

theorem clear_only_empties_log:
  "handleClearMessages s = s\<lparr>messages := []\<rparr>
   \<and> session (handleClearMessages s) = session s
   \<and> wsRef (handleClearMessages s) = wsRef s
   \<and> sockets (handleClearMessages s) = sockets s
   \<and> requests (handleClearMessages s) = requests s
   \<and> can_submit (handleClearMessages s) = can_submit s
   \<and> (can_submit s \<longrightarrow>
        messages (handleSubmit now res (handleClearMessages s)) = [userMessage now s]
        \<and> requests (handleSubmit now res (handleClearMessages s)) =
            requests s @ [SendMessage (connectionToken s) (Some (input s))]
        \<and> session (handleSubmit now res (handleClearMessages s)) = session s
        \<and> wsRef (handleSubmit now res (handleClearMessages s)) = wsRef s)"
proof -
  have c: "handleClearMessages s = s\<lparr>messages := []\<rparr>"
    by (simp add: handleClearMessages_def)
  have g: "can_submit (s\<lparr>messages := []\<rparr>) = can_submit s"
    by (simp add: can_submit_def required_fields_set_def)
  have u: "userMessage now (s\<lparr>messages := []\<rparr>) = userMessage now s"
    by (simp add: userMessage_def)
  have "messages (handleSubmit now res (s\<lparr>messages := []\<rparr>)) = [userMessage now s]
        \<and> requests (handleSubmit now res (s\<lparr>messages := []\<rparr>)) =
            requests s @ [SendMessage (connectionToken s) (Some (input s))]
        \<and> session (handleSubmit now res (s\<lparr>messages := []\<rparr>)) = session s
        \<and> wsRef (handleSubmit now res (s\<lparr>messages := []\<rparr>)) = wsRef s"
    if "can_submit s"
  proof -
    from that g have "can_submit (s\<lparr>messages := []\<rparr>)" by simp
    from handleSubmit_passed[OF this, of now res] u
    show ?thesis by (auto simp: session_def)
  qed
  with c g show ?thesis by (simp add: session_def)
qed

text \<open>Witness for C7: clearing the log after the agent's reply, then sending \<open>again\<close>.\<close>

theorem clear_only_empties_log_witness:
  "can_submit (setInput ''again'' replied)
   \<and> messages (handleClearMessages (setInput ''again'' replied)) = []
   \<and> messages (handleSubmit 9 (Resolved 200 ()) (handleClearMessages (setInput ''again'' replied)))
       = [\<lparr>content = Some ''again'', sender = User, timestamp = Now 9, isLoading = Some True\<rparr>]
   \<and> requests (handleSubmit 9 (Resolved 200 ()) (handleClearMessages (setInput ''again'' replied)))
       = [StartChat, SendMessage (Some ''k1'') (Some ''hello''),
          SendMessage (Some ''k1'') (Some ''again'')]"
proof -
  have t: "trim ''again'' = ''again''" by (simp add: trim_def js_space_def)
  have h: "can_submit (setInput ''again'' replied)"
    by (simp add: can_submit_def required_fields_set_def setInput_def replied_eq t truthy_def)
  let ?s = "setInput ''again'' replied"
  from clear_only_empties_log[of ?s 9 "Resolved 200 ()"] h
  have c: "handleClearMessages ?s = ?s\<lparr>messages := []\<rparr>"
    and m: "messages (handleSubmit 9 (Resolved 200 ()) (handleClearMessages ?s))
             = [userMessage 9 ?s]"
    and r: "requests (handleSubmit 9 (Resolved 200 ()) (handleClearMessages ?s))
             = requests ?s @ [SendMessage (connectionToken ?s) (Some (input ?s))]"
    by blast+
  have u: "userMessage 9 ?s =
      \<lparr>content = Some ''again'', sender = User, timestamp = Now 9, isLoading = Some True\<rparr>"
    by (simp add: userMessage_def setInput_def)
  have q: "requests ?s @ [SendMessage (connectionToken ?s) (Some (input ?s))] =
      [StartChat, SendMessage (Some ''k1'') (Some ''hello''),
       SendMessage (Some ''k1'') (Some ''again'')]"
    by (simp add: setInput_def replied_eq)
  have e: "messages (handleClearMessages ?s) = []"
    by (simp add: c)
  from h e m r u q show ?thesis by simp
qed

section \<open>C8: a failed send call\<close>

text \<open>
  C8. When the guard of \<open>handleSubmit\<close> passes and the send call fails (the promise
  rejects, or the response is not a success), the log is the old log followed by the
  optimistic message with its pending flag set; the session fields, \<open>wsRef\<close>, the ready
  state and address of every socket and the widget's visibility are as before, and a
  later submission passes the guard exactly when it would have before.
\<close>

theorem failed_send_keeps_message:
  assumes "can_submit s" and "send_failed res"
  shows "messages (handleSubmit now res s) = messages s @ [userMessage now s]
         \<and> isLoading (userMessage now s) = Some True
         \<and> session (handleSubmit now res s) = session s
         \<and> wsRef (handleSubmit now res s) = wsRef s
         \<and> map readyState (sockets (handleSubmit now res s)) = map readyState (sockets s)
         \<and> map url (sockets (handleSubmit now res s)) = map url (sockets s)
         \<and> isWidgetOpen (handleSubmit now res s) = isWidgetOpen s
         \<and> can_submit (setInput v (handleSubmit now res s)) = can_submit (setInput v s)"
  using handleSubmit_passed[OF assms(1), of now res]
  by (auto simp: session_def userMessage_def can_submit_def required_fields_set_def setInput_def)

text \<open>Witness for C8: \<open>hello\<close> sent on a booted session, the server answering 500.\<close>

theorem failed_send_keeps_message_witness:
  "can_submit (setInput ''hello'' booted) \<and> send_failed (Resolved 500 ())
   \<and> send_failed (Rejected :: unit fetch_result)
   \<and> messages (handleSubmit 5 (Resolved 500 ()) (setInput ''hello'' booted))
       = [\<lparr>content = Some ''hello'', sender = User, timestamp = Now 5, isLoading = Some True\<rparr>]
   \<and> session (handleSubmit 5 (Resolved 500 ()) (setInput ''hello'' booted)) = session booted
   \<and> wsRef (handleSubmit 5 (Resolved 500 ()) (setInput ''hello'' booted)) = Some 0
   \<and> map readyState (sockets (handleSubmit 5 (Resolved 500 ()) (setInput ''hello'' booted)))
       = [OPEN]"
proof -
  have h1: "can_submit (setInput ''hello'' booted)"
    by (simp add: can_submit_def required_fields_set_def setInput_def booted_eq trim_hello
        truthy_def)
  have h2: "send_failed (Resolved 500 ())" by (simp add: send_failed_def)
  have h3: "send_failed (Rejected :: unit fetch_result)" by (simp add: send_failed_def)
  let ?s = "setInput ''hello'' booted"
  from failed_send_keeps_message[OF h1 h2, of 5]
  have m: "messages (handleSubmit 5 (Resolved 500 ()) ?s) = messages ?s @ [userMessage 5 ?s]"
    and k: "session (handleSubmit 5 (Resolved 500 ()) ?s) = session ?s"
    and w: "wsRef (handleSubmit 5 (Resolved 500 ()) ?s) = wsRef ?s"
    and r: "map readyState (sockets (handleSubmit 5 (Resolved 500 ()) ?s))
              = map readyState (sockets ?s)"
    by blast+
  have v: "messages ?s @ [userMessage 5 ?s] =
      [\<lparr>content = Some ''hello'', sender = User, timestamp = Now 5, isLoading = Some True\<rparr>]"
    "session ?s = session booted" "wsRef ?s = Some 0" "map readyState (sockets ?s) = [OPEN]"
    by (simp_all add: userMessage_def setInput_def booted_eq session_def)
  from h1 h2 h3 m k w r v show ?thesis by simp
qed

section \<open>C9: the echo of a local message\<close>

text \<open>
  C9. A chat frame whose role is \<open>CUSTOMER\<close> leaves the whole state as it was: nothing is
  appended and no pending flag is flipped. And no frame at all changes the sequence of
  user messages' contents in the log, so a local message is in the log only as the
  optimistic copy that \<open>handleSubmit\<close> appended.
\<close>

theorem customer_message_discarded:
  "(frame_topic f = Some ''aws/chat'' \<and> frame_content f = JObject e
      \<and> ParticipantRole e = Some ''CUSTOMER'' \<longrightarrow> ws_onmessage w (JObject f) s = s)
   \<and> map content (filter (\<lambda>m. sender m = User) (messages (ws_onmessage w d s)))
       = map content (filter (\<lambda>m. sender m = User) (messages s))"
proof -
  have a: "frame_topic f = Some ''aws/chat'' \<and> frame_content f = JObject e
      \<and> ParticipantRole e = Some ''CUSTOMER'' \<longrightarrow> ws_onmessage w (JObject f) s = s"
    by (simp add: ws_onmessage_def Let_def)
  have b: "map content (filter (\<lambda>m. sender m = User) (messages (ws_onmessage w d s)))
       = map content (filter (\<lambda>m. sender m = User) (messages s))"
    using messages_ws_onmessage[of w d s] by (auto simp: user_contents_clearLoading)
  from a b show ?thesis by simp
qed

text \<open>
  Witness for C9: the echo of \<open>hello\<close> changes nothing, and after the agent's reply the
  user messages of the log are still the single \<open>hello\<close>.
\<close>

theorem customer_message_discarded_witness:
  "frame_topic f_customer_echo = Some ''aws/chat''
   \<and> frame_content f_customer_echo = JObject e_customer_echo
   \<and> ParticipantRole e_customer_echo = Some ''CUSTOMER''
   \<and> ws_onmessage True (JObject f_customer_echo) sent_hello = sent_hello
   \<and> map content (filter (\<lambda>m. sender m = User)
         (messages (ws_onmessage True (JObject f_agent_hi) sent_hello))) = [Some ''hello'']"
proof -
  have h: "frame_topic f_customer_echo = Some ''aws/chat''
     \<and> frame_content f_customer_echo = JObject e_customer_echo
     \<and> ParticipantRole e_customer_echo = Some ''CUSTOMER''"
    by (simp add: f_customer_echo_def e_customer_echo_def)
  have m: "map content (filter (\<lambda>m. sender m = User) (messages sent_hello)) = [Some ''hello'']"
    by (simp add: sent_hello_eq)
  from customer_message_discarded[where f = f_customer_echo and e = e_customer_echo
      and w = True and s = sent_hello and d = "JObject f_agent_hi"] h m
  show ?thesis by simp
qed

section \<open>C10: a send without connection token\<close>

text \<open>
  C10. The send endpoint answers a body whose \<open>connectionToken\<close> or \<open>content\<close> is absent
  (or empty) with status 400 and error \<open>MissingParameters\<close>, and hands no command to the
  participant client. The guard of \<open>handleSubmit\<close> does not test \<open>connectionToken\<close>: with
  the guard passing and no \<open>connectionToken\<close> in the state, the optimistic message is
  appended and the send call is issued with a body that the endpoint rejects in that way.
\<close>

theorem send_without_token_rejected:
  "(\<not> truthy (body_connectionToken b) \<or> \<not> truthy (body_content b) \<longrightarrow>
      send_message client b =
        (\<lparr>status = 400,
          body = ErrorBody ''MissingParameters'' ''connectionToken and content are required'' None\<rparr>,
         []))
   \<and> (can_submit s \<and> \<not> truthy (connectionToken s) \<longrightarrow>
        messages (handleSubmit now res s) = messages s @ [userMessage now s]
        \<and> requests (handleSubmit now res s) =
            requests s @ [SendMessage (connectionToken s) (Some (input s))]
        \<and> request_body (SendMessage (connectionToken s) (Some (input s))) =
            Some \<lparr>body_connectionToken = connectionToken s, body_content = Some (input s)\<rparr>
        \<and> send_message client
            \<lparr>body_connectionToken = connectionToken s, body_content = Some (input s)\<rparr> =
            (\<lparr>status = 400,
              body = ErrorBody ''MissingParameters'' ''connectionToken and content are required''
                       None\<rparr>,
             []))"
proof -
  have a: "\<not> truthy (body_connectionToken b') \<or> \<not> truthy (body_content b') \<longrightarrow>
      send_message client b' =
        (\<lparr>status = 400,
          body = ErrorBody ''MissingParameters'' ''connectionToken and content are required'' None\<rparr>,
         [])" for b'
    by (auto simp: send_message_def)
  have b: "messages (handleSubmit now res s) = messages s @ [userMessage now s]
        \<and> requests (handleSubmit now res s) =
            requests s @ [SendMessage (connectionToken s) (Some (input s))]"
    if "can_submit s"
    using handleSubmit_passed[OF that, of now res] by auto
  from a[of b] a[of "\<lparr>body_connectionToken = connectionToken s, body_content = Some (input s)\<rparr>"] b
  show ?thesis by simp
qed

text \<open>
  Witness for C10: a bootstrap whose response has no \<open>connectionToken\<close>, then \<open>hello\<close> is
  submitted; the call carries no token and the endpoint answers 400.
\<close>

theorem send_without_token_rejected_witness:
  "can_submit (setInput ''hello'' (run [OpenChat (Resolved 200 (JObject d_no_token)) True,
        Socket 0 WsOpen] init))
   \<and> connectionToken (setInput ''hello'' (run [OpenChat (Resolved 200 (JObject d_no_token)) True,
        Socket 0 WsOpen] init)) = None
   \<and> messages (handleSubmit 5 (Resolved 400 ()) (setInput ''hello''
        (run [OpenChat (Resolved 200 (JObject d_no_token)) True, Socket 0 WsOpen] init)))
       = [\<lparr>content = Some ''hello'', sender = User, timestamp = Now 5, isLoading = Some True\<rparr>]
   \<and> requests (handleSubmit 5 (Resolved 400 ()) (setInput ''hello''
        (run [OpenChat (Resolved 200 (JObject d_no_token)) True, Socket 0 WsOpen] init)))
       = [StartChat, SendMessage None (Some ''hello'')]
   \<and> send_message (\<lambda>c. Inr \<lparr>Id = Some ''m1'', out_AbsoluteTime = Some ''T''\<rparr>)
        \<lparr>body_connectionToken = None, body_content = Some ''hello''\<rparr> =
        (\<lparr>status = 400,
          body = ErrorBody ''MissingParameters'' ''connectionToken and content are required'' None\<rparr>,
         [])"
proof -
  let ?s = "setInput ''hello'' (run [OpenChat (Resolved 200 (JObject d_no_token)) True,
        Socket 0 WsOpen] init)"
  have e: "?s = \<lparr>messages = [], input = ''hello'', isTyping = False, isChatLoading = False,
     isWidgetOpen = True, hasNewMessage = False, hasPendingBotResponse = False,
     contactId = Some ''c1'', participantToken = Some ''p1'', connectionToken = None,
     wsUrl = Some ''wss://x'', wsRef = Some 0,
     sockets = [\<lparr>url = Some ''wss://x'', readyState = OPEN,
                 sent = [OutFrame ''aws/subscribe'' (Topics [''aws/chat'', ''aws/typing''])],
                 closureWidgetOpen = True\<rparr>],
     requests = [StartChat], soundsPlayed = 0\<rparr>"
    by (simp add: run_def init_def openChat_def initializeChat_def d_no_token_def
      truthy_def deliver_def setReadyState_def ws_onopen_def ws_send_def queue_def Let_def
      setInput_def)
  have h1: "can_submit ?s"
    unfolding e by (simp add: can_submit_def required_fields_set_def trim_hello truthy_def)
  have h2: "\<not> truthy (connectionToken ?s)"
    unfolding e by (simp add: truthy_def)
  from send_without_token_rejected[of _ _ ?s 5 "Resolved 400 ()"] h1 h2
  have "messages (handleSubmit 5 (Resolved 400 ()) ?s) = messages ?s @ [userMessage 5 ?s]
        \<and> requests (handleSubmit 5 (Resolved 400 ()) ?s) =
            requests ?s @ [SendMessage (connectionToken ?s) (Some (input ?s))]
        \<and> (\<forall>client. send_message client
            \<lparr>body_connectionToken = connectionToken ?s, body_content = Some (input ?s)\<rparr> =
            (\<lparr>status = 400,
              body = ErrorBody ''MissingParameters'' ''connectionToken and content are required''
                       None\<rparr>,
             []))"
    by blast
  with h1 show ?thesis unfolding e by (simp add: userMessage_def)
qed

end
